theory Spec2Isabelle
  imports Main "HOL-Library.Word"
begin

section \<open>Values shared by the two packages\<close>

text \<open>
  A Go \<^verbatim>\<open>error\<close> is an opaque value carrying a message (\<^verbatim>\<open>err.Error()\<close>); a nil error
  is \<open>None\<close> of \<open>error option\<close>. A value of type \<^verbatim>\<open>interface{}\<close> is \<open>'v option\<close>, the nil
  interface being \<open>None\<close>. A \<^verbatim>\<open>uuid.UUID\<close> is sixteen bytes.
\<close>

datatype error = Error string

fun ErrorString :: "error \<Rightarrow> string" where
  "ErrorString (Error m) = m"

type_synonym UUID = "128 word"

section \<open>internal/controller/api/management.go: the wire types\<close>

record connectionID =
  Account :: string
  NodeID :: string

record 'v connectionStatusResponse =
  Status :: string
  Capabilities :: "'v option"

record 'v connectionPingResponse =
  Status :: string
  Payload :: "'v option"

record errorResponse =
  Title :: string
  Status :: nat
  Detail :: string

section \<open>internal/controller/receptor.go\<close>

subsection \<open>Messages and channels\<close>

record 'v Message =
  MessageID :: UUID
  Recipient :: string
  RouteList :: "string list"
  Payload :: "'v option"
  Directive :: string

text \<open>
  A Go channel is an object on the heap that the session refers to. Its state here is the
  one of the runtime's \<^verbatim>\<open>hchan\<close>, with the buffer kept as a history: \<open>sent\<close> holds every value
  a completed send has put on the channel, oldest first, and \<open>taken\<close> counts how many of them
  receivers have taken, so the values still queued are the rest. \<open>cap\<close> is the buffer's size
  (0 for an unbuffered channel), \<open>recvq\<close> the number of receivers parked on the channel.
\<close>

record 'a chan =
  sent :: "'a list"
  taken :: nat
  cap :: nat
  closed :: bool
  recvq :: nat

definition queued :: "'a chan \<Rightarrow> 'a list" where
  "queued c = drop (taken c) (sent c)"

text \<open>
  A send on an open channel proceeds at once when a receiver is parked on it (the value
  is handed over; receivers only park on an empty channel) or when the buffer has room.
\<close>

definition ready :: "'a chan \<Rightarrow> bool" where
  "ready c = (0 < recvq c \<and> queued c = [] \<or> length (queued c) < cap c)"

text \<open>
  Otherwise the sending goroutine parks, and what ends the wait is another goroutine's
  doing, a parameter of the model: a receive takes a value off the channel and the send
  completes; or the channel is closed under the sender, which panics; or nothing ever
  happens.
\<close>

datatype wakeup = ByReceive | ByClose | Never

datatype 'a send_result = Sent "'a chan" | BlockedForever | SendOnClosed "'a chan"

text \<open>
  The send statement \<^verbatim>\<open>c <- x\<close> on a channel that is not nil, in the order of the runtime's
  \<^verbatim>\<open>chansend\<close>: closed, receiver parked, room in the buffer, park.
\<close>

definition chan_send :: "wakeup \<Rightarrow> 'a \<Rightarrow> 'a chan \<Rightarrow> 'a send_result" where
  "chan_send wake x c =
     (if closed c then SendOnClosed c
      else if 0 < recvq c \<and> queued c = []
      then Sent (c\<lparr>sent := sent c @ [x], taken := Suc (taken c), recvq := recvq c - 1\<rparr>)
      else if length (queued c) < cap c then Sent (c\<lparr>sent := sent c @ [x]\<rparr>)
      else (case wake of
              ByReceive \<Rightarrow> Sent (c\<lparr>sent := sent c @ [x], taken := Suc (taken c)\<rparr>)
            | ByClose \<Rightarrow> SendOnClosed (c\<lparr>closed := True\<rparr>)
            | Never \<Rightarrow> BlockedForever))"

subsection \<open>The session\<close>

text \<open>
  The three channel fields are references: \<open>None\<close> is the nil channel, \<open>Some a\<close> the channel
  at address \<open>a\<close>. The three channels carry values of three different types, so they live
  in three different heaps and never alias; only the heap of \<^verbatim>\<open>chan Message\<close> is ever
  written by this file, and only that one is modelled.
\<close>

record 'v ReceptorService =
  Account :: string
  NodeID :: string
  PeerNodeID :: string
  Metadata :: "'v option"
  SendChannel :: "nat option"
  ControlChannel :: "nat option"
  ErrorChannel :: "nat option"

text \<open>
  What a method of \<^verbatim>\<open>*ReceptorService\<close> can read and write: the receiver \<open>self\<close>, the heap of
  message channels, and the entries written through package \<^verbatim>\<open>log\<close>. An entry is kept
  without the time stamp the logger puts in front of it and without the newline that
  ends it.
\<close>

record 'v world =
  self :: "'v ReceptorService"
  chans :: "nat \<Rightarrow> 'v Message chan"
  logged :: "string list"

definition log_line :: "string \<Rightarrow> 'v world \<Rightarrow> 'v world" where
  "log_line l w = w\<lparr>logged := logged w @ [l]\<rparr>"

text \<open>
  \<^verbatim>\<open>log.Printf\<close> ends the entry with a newline only when the formatted text does not end
  with one already: a newline at the end of the text is the entry's own. (\<^verbatim>\<open>log.Println\<close>
  always adds the newline to its operands, joined by spaces.)
\<close>

definition Printf_entry :: "string \<Rightarrow> string" where
  "Printf_entry s = (if s \<noteq> [] \<and> last s = CHR 0x0A then butlast s else s)"

text \<open>
  How a call ends: it returns a result; or the goroutine blocks for ever (at a send on a
  nil channel, or parked at a send that nothing ever releases); or it panics. Each carries
  the state reached.
\<close>

datatype ('r, 's) outcome = Returns 'r 's | Hangs 's | Panics 's

fun final :: "('r, 's) outcome \<Rightarrow> 's" where
  "final (Returns r s) = s"
| "final (Hangs s) = s"
| "final (Panics s) = s"

text \<open>What the caller gets back: \<open>None\<close> when the call never returns.\<close>

fun result :: "('r, 's) outcome \<Rightarrow> 'r option" where
  "result (Returns r s) = Some r"
| "result (Hangs s) = None"
| "result (Panics s) = None"

subsection \<open>The methods\<close>

definition RegisterConnection ::
  "string \<Rightarrow> 'v option \<Rightarrow> 'v world \<Rightarrow> error option \<times> 'v world" where
  "RegisterConnection peerNodeID metadata w =
     (let w1 = log_line (Printf_entry (''Registering a connection to node '' @ peerNodeID)) w;
          w2 = w1\<lparr>self := (self w1)\<lparr>PeerNodeID := peerNodeID\<rparr>\<rparr>;
          w3 = w2\<lparr>self := (self w2)\<lparr>Metadata := metadata\<rparr>\<rparr>
      in (None, w3))"

definition UpdateRoutingTable ::
  "string \<Rightarrow> string \<Rightarrow> 'v world \<Rightarrow> error option \<times> 'v world" where
  "UpdateRoutingTable edges seen w =
     (let w1 = log_line (''edges: '' @ edges) w;
          w2 = log_line (''seen: '' @ seen) w1
      in (None, w2))"

text \<open>
  \<^verbatim>\<open>uuid.NewRandom()\<close> is a library call on the system's randomness: its result, the pair
  \<^verbatim>\<open>(jobID, err)\<close>, is a parameter of the model, and so is what ends a wait at the send.
  The returned \<^verbatim>\<open>*uuid.UUID\<close> is \<open>None\<close> for nil and \<open>Some u\<close> for a pointer to \<open>u\<close>.
\<close>

definition SendMessage ::
  "UUID \<times> error option \<Rightarrow> wakeup \<Rightarrow> string \<Rightarrow> string list \<Rightarrow> 'v option \<Rightarrow> string
     \<Rightarrow> 'v world \<Rightarrow> (UUID option \<times> error option, 'v world) outcome" where
  "SendMessage newRandom wake recipient route payload directive w =
     (case newRandom of (jobID, err) \<Rightarrow>
        (case err of
           Some e \<Rightarrow>
             Returns (None, Some e)
               (log_line ''Unable to generate UUID for routing the job...cannot proceed'' w)
         | None \<Rightarrow>
             (let msg = \<lparr>MessageID = jobID, Recipient = recipient, RouteList = route,
                         Payload = payload, Directive = directive\<rparr>
              in case SendChannel (self w) of
                   None \<Rightarrow> Hangs w
                 | Some a \<Rightarrow>
                     (case chan_send wake msg (chans w a) of
                        Sent c \<Rightarrow> Returns (Some jobID, None) (w\<lparr>chans := (chans w)(a := c)\<rparr>)
                      | BlockedForever \<Rightarrow> Hangs w
                      | SendOnClosed c \<Rightarrow> Panics (w\<lparr>chans := (chans w)(a := c)\<rparr>)))))"

definition Close :: "'v world \<Rightarrow> 'v world" where
  "Close w = w"

definition DisconnectReceptorNetwork :: "'v world \<Rightarrow> 'v world" where
  "DisconnectReceptorNetwork w = w"

subsection \<open>The operations of a session, as data\<close>

datatype 'v session_op =
    OpRegisterConnection string "'v option"
  | OpUpdateRoutingTable string string
  | OpSendMessage "UUID \<times> error option" wakeup string "string list" "'v option" string
  | OpClose
  | OpDisconnectReceptorNetwork

text \<open>The state an operation leaves, however it ends.\<close>

fun perform :: "'v session_op \<Rightarrow> 'v world \<Rightarrow> 'v world" where
  "perform (OpRegisterConnection peerNodeID metadata) w =
     snd (RegisterConnection peerNodeID metadata w)"
| "perform (OpUpdateRoutingTable edges seen) w = snd (UpdateRoutingTable edges seen w)"
| "perform (OpSendMessage newRandom wake recipient route payload directive) w =
     final (SendMessage newRandom wake recipient route payload directive w)"
| "perform OpClose w = Close w"
| "perform OpDisconnectReceptorNetwork w = DisconnectReceptorNetwork w"

text \<open>The fields that say which session this is and which channels it owns.\<close>

definition identity ::
  "'v ReceptorService \<Rightarrow> string \<times> string \<times> nat option \<times> nat option \<times> nat option" where
  "identity r = (Account r, NodeID r, SendChannel r, ControlChannel r, ErrorChannel r)"

section \<open>internal/controller/api/management.go: the handlers\<close>

subsection \<open>The collaborators\<close>

text \<open>
  The client a handler finds is a value of the interface \<^verbatim>\<open>controller.Receptor\<close>, which is
  not among the sources: what its methods return is a parameter. \<^verbatim>\<open>GetCapabilities(ctx)\<close>
  and \<^verbatim>\<open>Ping(ctx, account, nodeID, route)\<close> return a pair \<^verbatim>\<open>(interface{}, error)\<close>, and Go lets
  both components be non-nil. \<^verbatim>\<open>Close(ctx)\<close> returns nothing. The request context carries
  deadlines only and is left out.
\<close>

record 'v Receptor =
  GetCapabilities :: "'v option \<times> error option"
  Ping :: "string \<Rightarrow> string \<Rightarrow> string list \<Rightarrow> 'v option \<times> error option"

text \<open>
  Modelled from the spec: the interface \<^verbatim>\<open>controller.ConnectionLocator\<close> and its
  implementation are not among the sources. The spec (3, 4.3) has the registry as a
  two-level mapping, tenant to node identity to session, and \<^verbatim>\<open>Get\<close> as the point lookup
  that answers not-found (nil) when either level has no entry.
\<close>

type_synonym 'v ConnectionLocator = "string \<rightharpoonup> (string \<rightharpoonup> 'v Receptor)"

definition GetConnection ::
  "'v ConnectionLocator \<Rightarrow> string \<Rightarrow> string \<Rightarrow> 'v Receptor option" where
  "GetConnection reg account node_id =
     (case reg account of None \<Rightarrow> None | Some nodes \<Rightarrow> nodes node_id)"

record 'v ManagementServer =
  connectionMgr :: "'v ConnectionLocator"

text \<open>
  A request as a handler sees it: the account of the principal and the request id (for
  the logger's fields), and what \<^verbatim>\<open>decodeJSON(body, &connID)\<close> gives, an error or the decoded
  \<^verbatim>\<open>connectionID\<close>.
\<close>

record request =
  principal_account :: string
  request_id :: string
  decodeJSON :: "error + connectionID"

subsection \<open>What a handler does\<close>

text \<open>
  A handler writes one response with \<^verbatim>\<open>writeJSONResponse(w, status, body)\<close> and, before that,
  logs and calls methods of the client. These effects are kept in order; a call on the
  client is named by the key the client was found under.
\<close>

datatype level = InfoLevel | ErrorLevel

datatype effect =
    LogEntry level "(string \<times> string) list" string
  | CallClose "string \<times> string"
  | CallGetCapabilities "string \<times> string"
  | CallPing "string \<times> string" string string "string list"

fun is_call :: "effect \<Rightarrow> bool" where
  "is_call (LogEntry l fs m) = False"
| "is_call (CallClose k) = True"
| "is_call (CallGetCapabilities k) = True"
| "is_call (CallPing k account node_id route) = True"

fun is_error_log :: "effect \<Rightarrow> bool" where
  "is_error_log (LogEntry l fs m) = (l = ErrorLevel)"
| "is_error_log (CallClose k) = False"
| "is_error_log (CallGetCapabilities k) = False"
| "is_error_log (CallPing k account node_id route) = False"

datatype 'v body =
    ErrorBody errorResponse
  | StatusBody "'v connectionStatusResponse"
  | PingBody "'v connectionPingResponse"
  | EmptyObject

record 'v served =
  written :: "nat \<times> 'v body"
  effects :: "effect list"
  server :: "'v ManagementServer"

definition calls :: "'v served \<Rightarrow> effect list" where
  "calls r = filter is_call (effects r)"

text \<open>
  The keys of the JSON object that \<^verbatim>\<open>encoding/json\<close> writes for a
  \<^verbatim>\<open>connectionStatusResponse\<close>, from the struct's tags: \<^verbatim>\<open>capabilities\<close> is \<^verbatim>\<open>omitempty\<close>, so a
  nil value leaves the key out.
\<close>

definition status_keys :: "'v connectionStatusResponse \<Rightarrow> string list" where
  "status_keys r =
     ''status'' # (case Capabilities r of None \<Rightarrow> [] | Some c \<Rightarrow> [''capabilities''])"

definition CONNECTED_STATUS :: string where
  "CONNECTED_STATUS = ''connected''"

definition DISCONNECTED_STATUS :: string where
  "DISCONNECTED_STATUS = ''disconnected''"

definition StatusOK :: nat where
  "StatusOK = 200"

definition StatusBadRequest :: nat where
  "StatusBadRequest = 400"

definition logger_fields :: "request \<Rightarrow> (string \<times> string) list" where
  "logger_fields req =
     [(''account'', principal_account req), (''request_id'', request_id req)]"

definition bad_json :: "'v ManagementServer \<Rightarrow> error \<Rightarrow> 'v served" where
  "bad_json s err =
     \<lparr>written = (StatusBadRequest,
         ErrorBody \<lparr>Title = ''Unable to process json input'', Status = StatusBadRequest,
                    Detail = ErrorString err\<rparr>),
      effects = [], server = s\<rparr>"

subsection \<open>The three handlers on one connection\<close>

definition handleDisconnect :: "'v ManagementServer \<Rightarrow> request \<Rightarrow> 'v served" where
  "handleDisconnect s req =
     (case decodeJSON req of
        Inl err \<Rightarrow> bad_json s err
      | Inr connID \<Rightarrow>
          (let account = connectionID.Account connID; node_id = connectionID.NodeID connID in
           case GetConnection (connectionMgr s) account node_id of
             None \<Rightarrow>
               (let errMsg = ''No connection found for node ('' @ account @ '':'' @ node_id @ '')''
                in \<lparr>written = (StatusBadRequest,
                       ErrorBody \<lparr>Title = errMsg, Status = StatusBadRequest, Detail = errMsg\<rparr>),
                    effects = [LogEntry InfoLevel (logger_fields req) errMsg],
                    server = s\<rparr>)
           | Some client \<Rightarrow>
               \<lparr>written = (StatusOK, EmptyObject),
                effects =
                  [LogEntry InfoLevel (logger_fields req)
                     (''Attempting to disconnect account:'' @ account @ '' - node id:'' @ node_id),
                   CallClose (account, node_id)],
                server = s\<rparr>))"

definition handleConnectionStatus :: "'v ManagementServer \<Rightarrow> request \<Rightarrow> 'v served" where
  "handleConnectionStatus s req =
     (case decodeJSON req of
        Inl err \<Rightarrow> bad_json s err
      | Inr connID \<Rightarrow>
          (let account = connectionID.Account connID; node_id = connectionID.NodeID connID;
               checking = LogEntry InfoLevel (logger_fields req)
                 (''Checking connection status for account:'' @ account @ '' - node id:'' @ node_id);
               (connectionStatus, queried) =
                 (case GetConnection (connectionMgr s) account node_id of
                    Some client \<Rightarrow>
                      (case GetCapabilities client of (capabilities, err) \<Rightarrow>
                         (\<lparr>connectionStatusResponse.Status = CONNECTED_STATUS,
                           Capabilities = capabilities\<rparr>,
                          CallGetCapabilities (account, node_id) #
                          (case err of
                             Some e \<Rightarrow>
                               [LogEntry ErrorLevel
                                  (logger_fields req @ [(''error'', ErrorString e)])
                                  (''Unable to retrieve the capabilities of node '' @ node_id)]
                           | None \<Rightarrow> [])))
                  | None \<Rightarrow>
                      (\<lparr>connectionStatusResponse.Status = DISCONNECTED_STATUS,
                        Capabilities = None\<rparr>, []))
           in \<lparr>written = (StatusOK, StatusBody connectionStatus),
               effects = checking # queried @
                 [LogEntry InfoLevel (logger_fields req)
                    (''Connection status for account:'' @ account @ '' - node id:'' @ node_id
                       @ '' => '' @ connectionStatusResponse.Status connectionStatus
                       @ [CHR 0x0A])],
               server = s\<rparr>))"

definition handleConnectionPing :: "'v ManagementServer \<Rightarrow> request \<Rightarrow> 'v served" where
  "handleConnectionPing s req =
     (case decodeJSON req of
        Inl err \<Rightarrow> bad_json s err
      | Inr connID \<Rightarrow>
          (let account = connectionID.Account connID; node_id = connectionID.NodeID connID;
               submitting = LogEntry InfoLevel (logger_fields req)
                 (''Submitting ping for account:'' @ account @ '' - node id:'' @ node_id)
           in case GetConnection (connectionMgr s) account node_id of
                None \<Rightarrow>
                  \<lparr>written = (StatusOK,
                      PingBody \<lparr>connectionPingResponse.Status = DISCONNECTED_STATUS,
                                Payload = None\<rparr>),
                   effects = [submitting], server = s\<rparr>
              | Some client \<Rightarrow>
                  (case Ping client account node_id [node_id] of (payload, err) \<Rightarrow>
                     (case err of
                        Some e \<Rightarrow>
                          \<lparr>written = (StatusBadRequest,
                              ErrorBody \<lparr>Title = ''Ping failed'', Status = StatusBadRequest,
                                         Detail = ErrorString e\<rparr>),
                           effects = [submitting, CallPing (account, node_id) account node_id [node_id]],
                           server = s\<rparr>
                      | None \<Rightarrow>
                          \<lparr>written = (StatusOK,
                              PingBody \<lparr>connectionPingResponse.Status = CONNECTED_STATUS,
                                        Payload = payload\<rparr>),
                           effects = [submitting, CallPing (account, node_id) account node_id [node_id]],
                           server = s\<rparr>))))"

subsection \<open>Concrete sessions\<close>

definition session0 :: "string ReceptorService" where
  "session0 = \<lparr>Account = ''acct1'', NodeID = ''nodeX'', PeerNodeID = [], Metadata = None,
                SendChannel = Some 0, ControlChannel = Some 0, ErrorChannel = Some 0\<rparr>"

definition open_chan :: "string Message chan" where
  "open_chan = \<lparr>sent = [], taken = 0, cap = 2, closed = False, recvq = 0\<rparr>"

definition world0 :: "string world" where
  "world0 = \<lparr>self = session0, chans = (\<lambda>a. open_chan), logged = []\<rparr>"

text \<open>
  The same session with its channel closed; buffered and full; unbuffered with no
  receiver; unbuffered with a receiver parked on it; and nil.
\<close>

definition world_closed :: "string world" where
  "world_closed = world0\<lparr>chans := (\<lambda>a. open_chan\<lparr>closed := True\<rparr>)\<rparr>"

definition earlier_job :: "string Message" where
  "earlier_job = \<lparr>MessageID = 7, Recipient = ''nodeX'', RouteList = [], Payload = None,
                   Directive = ''run''\<rparr>"

definition full_chan :: "string Message chan" where
  "full_chan = \<lparr>sent = [earlier_job], taken = 0, cap = 1, closed = False, recvq = 0\<rparr>"

definition world_full :: "string world" where
  "world_full = world0\<lparr>chans := (\<lambda>a. full_chan)\<rparr>"

definition world_unbuffered :: "string world" where
  "world_unbuffered = world0\<lparr>chans := (\<lambda>a. open_chan\<lparr>cap := 0\<rparr>)\<rparr>"

definition world_rendezvous :: "string world" where
  "world_rendezvous = world0\<lparr>chans := (\<lambda>a. open_chan\<lparr>cap := 0, recvq := 1\<rparr>)\<rparr>"

definition world_nil :: "string world" where
  "world_nil = world0\<lparr>self := session0\<lparr>SendChannel := None\<rparr>\<rparr>"

definition job :: "string Message" where
  "job = \<lparr>MessageID = 42, Recipient = ''nodeX'', RouteList = [], Payload = Some ''job'',
           Directive = ''run''\<rparr>"

subsection \<open>Concrete clients, registry and requests\<close>

definition client_ok :: "string Receptor" where
  "client_ok = \<lparr>GetCapabilities = (Some ''caps'', None),
                 Ping = (\<lambda>account node_id route. (Some ''pong'', None))\<rparr>"

definition client_failing :: "string Receptor" where
  "client_failing = \<lparr>GetCapabilities = (None, Some (Error ''timeout'')),
                      Ping = (\<lambda>account node_id route. (None, Some (Error ''timeout'')))\<rparr>"

definition client_stale :: "string Receptor" where
  "client_stale = \<lparr>GetCapabilities = (Some ''stale'', Some (Error ''timeout'')),
                    Ping = (\<lambda>account node_id route. (Some ''late'', Some (Error ''timeout'')))\<rparr>"

definition server0 :: "string ManagementServer" where
  "server0 = \<lparr>connectionMgr =
     [''acct1'' \<mapsto> [''nodeX'' \<mapsto> client_ok, ''nodeY'' \<mapsto> client_failing,
                     ''nodeZ'' \<mapsto> client_stale]]\<rparr>"

definition request_for :: "string \<Rightarrow> request" where
  "request_for node_id =
     \<lparr>principal_account = ''acct1'', request_id = ''req-1'',
      decodeJSON = Inr \<lparr>connectionID.Account = ''acct1'', NodeID = node_id\<rparr>\<rparr>"

section \<open>Properties of the session\<close>

lemma SendMessage_failed_id:
  assumes "snd newRandom = Some e"
  shows "SendMessage newRandom wake recipient route payload directive w =
           Returns (None, Some e)
             (log_line ''Unable to generate UUID for routing the job...cannot proceed'' w)"
  using assms by (cases newRandom) (simp add: SendMessage_def)

lemma SendMessage_generated:
  assumes "snd newRandom = None"
  shows "SendMessage newRandom wake recipient route payload directive w =
           (case SendChannel (self w) of
              None \<Rightarrow> Hangs w
            | Some a \<Rightarrow>
                (case chan_send wake
                        \<lparr>MessageID = fst newRandom, Recipient = recipient, RouteList = route,
                         Payload = payload, Directive = directive\<rparr> (chans w a) of
                   Sent c \<Rightarrow> Returns (Some (fst newRandom), None) (w\<lparr>chans := (chans w)(a := c)\<rparr>)
                 | BlockedForever \<Rightarrow> Hangs w
                 | SendOnClosed c \<Rightarrow> Panics (w\<lparr>chans := (chans w)(a := c)\<rparr>)))"
  using assms
  by (cases newRandom) (auto simp: SendMessage_def split: option.splits send_result.splits)

lemma chan_send_closed:
  "closed c \<Longrightarrow> chan_send wake x c = SendOnClosed c"
  by (simp add: chan_send_def)

lemma chan_send_completes:
  assumes "\<not> closed c" and "ready c \<or> wake = ByReceive"
  shows "\<exists>c'. chan_send wake x c = Sent c' \<and> sent c' = sent c @ [x] \<and> cap c' = cap c \<and>
              closed c' = closed c"
  using assms by (auto simp: chan_send_def ready_def)

lemma chan_send_never:
  "\<not> closed c \<Longrightarrow> \<not> ready c \<Longrightarrow> chan_send Never x c = BlockedForever"
  by (auto simp: chan_send_def ready_def)

lemma chan_send_closed_under:
  "\<not> closed c \<Longrightarrow> \<not> ready c \<Longrightarrow> chan_send ByClose x c = SendOnClosed (c\<lparr>closed := True\<rparr>)"
  by (auto simp: chan_send_def ready_def)

subsection \<open>SendMessage\<close>

text \<open>
  C1 (amended). For every call \<^verbatim>\<open>SendMessage(recipient, route, payload, directive)\<close> in
  which identifier generation succeeds and the send on the session's outbound data channel
  completes, exactly one \<open>Message\<close> is put on that channel, after everything sent before; its
  \<open>MessageID\<close> is the non-nil identifier returned to the caller, with a nil error, and its
  other fields are the arguments; nothing else changes. The send completes exactly when
  the channel is not nil and not closed and either takes the value at once (a receiver is
  parked on it, or its buffer has room) or, the caller waiting at the send, a receive
  releases it. In every other case no identifier is returned: on a nil channel the call
  blocks for ever, on a closed channel it panics, and a caller waiting at the send blocks
  for ever when nothing is received and panics when the channel is closed under it; no
  message is put on any channel.
\<close>

theorem SendMessage_enqueues_exactly_one:
  fixes newRandom wake recipient route payload directive and w :: "'v world"
  defines "out \<equiv> SendMessage newRandom wake recipient route payload directive w"
      and "msg \<equiv> \<lparr>MessageID = fst newRandom, Recipient = recipient, RouteList = route,
                   Payload = payload, Directive = directive\<rparr>"
  assumes "snd newRandom = None"
  shows "(SendChannel (self w) = None \<longrightarrow> out = Hangs w) \<and>
         (\<forall>a. SendChannel (self w) = Some a \<longrightarrow>
            (closed (chans w a) \<longrightarrow> out = Panics w) \<and>
            (\<not> closed (chans w a) \<and> (ready (chans w a) \<or> wake = ByReceive) \<longrightarrow>
               result out = Some (Some (fst newRandom), None) \<and>
               sent (chans (final out) a) = sent (chans w a) @ [msg] \<and>
               cap (chans (final out) a) = cap (chans w a) \<and>
               closed (chans (final out) a) = closed (chans w a) \<and>
               (\<forall>b. b \<noteq> a \<longrightarrow> chans (final out) b = chans w b) \<and>
               self (final out) = self w \<and> logged (final out) = logged w) \<and>
            (\<not> closed (chans w a) \<and> \<not> ready (chans w a) \<and> wake = Never \<longrightarrow> out = Hangs w) \<and>
            (\<not> closed (chans w a) \<and> \<not> ready (chans w a) \<and> wake = ByClose \<longrightarrow>
               out = Panics (w\<lparr>chans := (chans w)(a := (chans w a)\<lparr>closed := True\<rparr>)\<rparr>) \<and>
               sent (chans (final out) a) = sent (chans w a)))"
proof -
  have nil: "SendChannel (self w) = None \<Longrightarrow> out = Hangs w"
    by (simp add: out_def SendMessage_generated [OF assms(3)])
  have shut: "out = Panics w" if "SendChannel (self w) = Some a" "closed (chans w a)" for a
    using that by (simp add: out_def SendMessage_generated [OF assms(3)] chan_send_closed)
  have sends: "result out = Some (Some (fst newRandom), None) \<and>
      sent (chans (final out) a) = sent (chans w a) @ [msg] \<and>
      cap (chans (final out) a) = cap (chans w a) \<and>
      closed (chans (final out) a) = closed (chans w a) \<and>
      (\<forall>b. b \<noteq> a \<longrightarrow> chans (final out) b = chans w b) \<and>
      self (final out) = self w \<and> logged (final out) = logged w"
    if "SendChannel (self w) = Some a" "\<not> closed (chans w a)"
       "ready (chans w a) \<or> wake = ByReceive" for a
  proof -
    from chan_send_completes [OF that(2,3), of msg]
    obtain c' where "chan_send wake msg (chans w a) = Sent c'"
      and "sent c' = sent (chans w a) @ [msg]" and "cap c' = cap (chans w a)"
      and "closed c' = closed (chans w a)"
      by blast
    then show ?thesis
      using that(1) by (simp add: out_def msg_def SendMessage_generated [OF assms(3)])
  qed
  have never: "out = Hangs w"
    if "SendChannel (self w) = Some a" "\<not> closed (chans w a)" "\<not> ready (chans w a)"
       "wake = Never" for a
    using that by (simp add: out_def SendMessage_generated [OF assms(3)] chan_send_never)
  have under: "out = Panics (w\<lparr>chans := (chans w)(a := (chans w a)\<lparr>closed := True\<rparr>)\<rparr>) \<and>
      sent (chans (final out) a) = sent (chans w a)"
    if "SendChannel (self w) = Some a" "\<not> closed (chans w a)" "\<not> ready (chans w a)"
       "wake = ByClose" for a
    using that
    by (simp add: out_def SendMessage_generated [OF assms(3)] chan_send_closed_under)
  show ?thesis
    using nil shut sends never under by blast
qed

theorem SendMessage_enqueues_exactly_one_witness:
  "snd (42 :: UUID, None :: error option) = None \<and>
   SendChannel (self world0) = Some 0 \<and> \<not> closed (chans world0 0) \<and> ready (chans world0 0) \<and>
   result (SendMessage (42, None) Never ''nodeX'' [] (Some ''job'') ''run'' world0) =
     Some (Some 42, None) \<and>
   sent (chans (final (SendMessage (42, None) Never ''nodeX'' [] (Some ''job'') ''run'' world0)) 0) =
     [job] \<and>
   ready (chans world_rendezvous 0) \<and>
   result (SendMessage (42, None) Never ''nodeX'' [] (Some ''job'') ''run'' world_rendezvous) =
     Some (Some 42, None) \<and>
   sent (chans (final (SendMessage (42, None) Never ''nodeX'' [] (Some ''job'') ''run''
     world_rendezvous)) 0) = [job] \<and>
   \<not> ready (chans world_full 0) \<and>
   result (SendMessage (42, None) ByReceive ''nodeX'' [] (Some ''job'') ''run'' world_full) =
     Some (Some 42, None) \<and>
   sent (chans (final (SendMessage (42, None) ByReceive ''nodeX'' [] (Some ''job'') ''run''
     world_full)) 0) = [earlier_job, job] \<and>
   SendMessage (42, None) Never ''nodeX'' [] (Some ''job'') ''run'' world_full = Hangs world_full \<and>
   SendMessage (42, None) ByClose ''nodeX'' [] (Some ''job'') ''run'' world_full =
     Panics (world_full\<lparr>chans := (chans world_full)(0 := full_chan\<lparr>closed := True\<rparr>)\<rparr>)"
proof -
  have g: "snd (42 :: UUID, None :: error option) = None" by simp
  have o: "SendChannel (self world0) = Some 0" "\<not> closed (chans world0 0)"
    "ready (chans world0 0)"
    by (simp_all add: world0_def session0_def open_chan_def ready_def queued_def)
  have r: "SendChannel (self world_rendezvous) = Some 0" "\<not> closed (chans world_rendezvous 0)"
    "ready (chans world_rendezvous 0)"
    by (simp_all add: world_rendezvous_def world0_def session0_def open_chan_def ready_def
          queued_def)
  have f: "SendChannel (self world_full) = Some 0" "\<not> closed (chans world_full 0)"
    "\<not> ready (chans world_full 0)" "chans world_full 0 = full_chan"
    by (simp_all add: world_full_def world0_def session0_def full_chan_def ready_def queued_def)
  have 1: "result (SendMessage (42, None) Never ''nodeX'' [] (Some ''job'') ''run'' world0) =
      Some (Some 42, None)"
    "sent (chans (final (SendMessage (42, None) Never ''nodeX'' [] (Some ''job'') ''run'' world0)) 0) =
      [job]"
    using SendMessage_enqueues_exactly_one [OF g, where w = world0 and wake = Never
        and recipient = "''nodeX''" and route = "[]" and payload = "Some ''job''"
        and directive = "''run''"] o
    by (simp_all add: job_def world0_def open_chan_def)
  have 2: "result (SendMessage (42, None) Never ''nodeX'' [] (Some ''job'') ''run''
        world_rendezvous) = Some (Some 42, None)"
    "sent (chans (final (SendMessage (42, None) Never ''nodeX'' [] (Some ''job'') ''run''
        world_rendezvous)) 0) = [job]"
    using SendMessage_enqueues_exactly_one [OF g, where w = world_rendezvous and wake = Never
        and recipient = "''nodeX''" and route = "[]" and payload = "Some ''job''"
        and directive = "''run''"] r
    by (simp_all add: job_def world_rendezvous_def world0_def open_chan_def)
  have 3: "result (SendMessage (42, None) ByReceive ''nodeX'' [] (Some ''job'') ''run''
        world_full) = Some (Some 42, None)"
    "sent (chans (final (SendMessage (42, None) ByReceive ''nodeX'' [] (Some ''job'') ''run''
        world_full)) 0) = [earlier_job, job]"
    using SendMessage_enqueues_exactly_one [OF g, where w = world_full and wake = ByReceive
        and recipient = "''nodeX''" and route = "[]" and payload = "Some ''job''"
        and directive = "''run''"] f
    by (simp_all add: job_def full_chan_def)
  have 4: "SendMessage (42, None) Never ''nodeX'' [] (Some ''job'') ''run'' world_full =
      Hangs world_full"
    using SendMessage_enqueues_exactly_one [OF g, where w = world_full and wake = Never
        and recipient = "''nodeX''" and route = "[]" and payload = "Some ''job''"
        and directive = "''run''"] f
    by simp
  have 5: "SendMessage (42, None) ByClose ''nodeX'' [] (Some ''job'') ''run'' world_full =
      Panics (world_full\<lparr>chans := (chans world_full)(0 := full_chan\<lparr>closed := True\<rparr>)\<rparr>)"
    using SendMessage_enqueues_exactly_one [OF g, where w = world_full and wake = ByClose
        and recipient = "''nodeX''" and route = "[]" and payload = "Some ''job''"
        and directive = "''run''"] f
    by simp
  show ?thesis
    using g o r f(3) 1 2 3 4 5 by simp
qed

text \<open>
  Without the condition that the send completes the statement fails: on a session whose
  \<^verbatim>\<open>SendChannel\<close> is nil the identifier is generated and the send blocks for ever, whatever
  the transport does; no message is put on any channel and no identifier reaches the
  caller.
\<close>

theorem SendMessage_on_nil_channel_counterexample:
  "snd (42 :: UUID, None :: error option) = None \<and>
   SendMessage (42, None) ByReceive ''nodeX'' [] (Some ''job'') ''run'' world_nil =
     Hangs world_nil \<and>
   result (SendMessage (42, None) ByReceive ''nodeX'' [] (Some ''job'') ''run'' world_nil) = None"
  by (simp add: SendMessage_def world_nil_def world0_def session0_def)

text \<open>
  C2 (amended). \<^verbatim>\<open>SendMessage\<close> has no check for a closed or removed session and never
  returns a \<^verbatim>\<open>SessionClosed\<close> error. \<^verbatim>\<open>Close\<close> and \<^verbatim>\<open>DisconnectReceptorNetwork\<close> change nothing,
  so a call after them does what the same call did before them. The only error the call
  ever returns is the one of identifier generation, with a nil identifier. With an
  identifier generated, the call blocks for ever on a nil channel and panics on a closed
  one; on an open channel it returns the identifier with a nil error when the channel
  takes the value at once or a receive releases the waiting caller, blocks for ever when
  the caller waits and nothing is received, and panics when the channel is closed under
  the waiting caller.
\<close>

theorem SendMessage_has_no_closed_session_check:
  "SendMessage newRandom wake recipient route payload directive (Close w) =
     SendMessage newRandom wake recipient route payload directive w \<and>
   SendMessage newRandom wake recipient route payload directive (DisconnectReceptorNetwork w) =
     SendMessage newRandom wake recipient route payload directive w \<and>
   (\<forall>u e. result (SendMessage newRandom wake recipient route payload directive w) =
            Some (u, Some e) \<longrightarrow> u = None \<and> snd newRandom = Some e) \<and>
   (snd newRandom = None \<longrightarrow>
      (case SendChannel (self w) of
         None \<Rightarrow> SendMessage newRandom wake recipient route payload directive w = Hangs w
       | Some a \<Rightarrow>
           if closed (chans w a)
           then SendMessage newRandom wake recipient route payload directive w = Panics w
           else if ready (chans w a) \<or> wake = ByReceive
           then result (SendMessage newRandom wake recipient route payload directive w) =
                  Some (Some (fst newRandom), None)
           else if wake = Never
           then SendMessage newRandom wake recipient route payload directive w = Hangs w
           else SendMessage newRandom wake recipient route payload directive w =
                  Panics (w\<lparr>chans := (chans w)(a := (chans w a)\<lparr>closed := True\<rparr>)\<rparr>)))"
proof -
  have same: "Close w = w" "DisconnectReceptorNetwork w = w"
    by (simp_all add: Close_def DisconnectReceptorNetwork_def)
  have only: "u = None \<and> snd newRandom = Some e"
    if "result (SendMessage newRandom wake recipient route payload directive w) = Some (u, Some e)"
    for u e
    using that
    by (cases newRandom)
       (auto simp: SendMessage_def split: option.splits send_result.splits)
  have ends: "case SendChannel (self w) of
         None \<Rightarrow> SendMessage newRandom wake recipient route payload directive w = Hangs w
       | Some a \<Rightarrow>
           if closed (chans w a)
           then SendMessage newRandom wake recipient route payload directive w = Panics w
           else if ready (chans w a) \<or> wake = ByReceive
           then result (SendMessage newRandom wake recipient route payload directive w) =
                  Some (Some (fst newRandom), None)
           else if wake = Never
           then SendMessage newRandom wake recipient route payload directive w = Hangs w
           else SendMessage newRandom wake recipient route payload directive w =
                  Panics (w\<lparr>chans := (chans w)(a := (chans w a)\<lparr>closed := True\<rparr>)\<rparr>)"
    if "snd newRandom = None"
    by (cases wake)
       (auto simp: SendMessage_generated [OF that] chan_send_def ready_def
             split: option.splits)
  show ?thesis
    using same only ends by simp
qed

theorem SendMessage_has_no_closed_session_check_witness:
  "snd (42 :: UUID, None :: error option) = None \<and>
   SendMessage (42, None) ByReceive ''nodeX'' [] None ''run'' (Close world_closed) =
     Panics world_closed \<and>
   SendMessage (42, None) Never ''nodeX'' [] None ''run'' (Close world_full) = Hangs world_full \<and>
   result (SendMessage (42, None) Never ''nodeX'' [] None ''run'' (Close world_rendezvous)) =
     Some (Some 42, None) \<and>
   result (SendMessage (0, Some (Error ''EOF'')) Never ''nodeX'' [] None ''run'' world0) =
     Some (None, Some (Error ''EOF'')) \<and>
   snd (0 :: UUID, Some (Error ''EOF'')) = Some (Error ''EOF'')"
proof -
  have c: "SendChannel (self world_closed) = Some 0" "closed (chans world_closed 0)"
    by (simp_all add: world_closed_def world0_def session0_def open_chan_def)
  have f: "SendChannel (self world_full) = Some 0" "\<not> closed (chans world_full 0)"
    "\<not> ready (chans world_full 0)"
    by (simp_all add: world_full_def world0_def session0_def full_chan_def ready_def queued_def)
  have r: "SendChannel (self world_rendezvous) = Some 0" "\<not> closed (chans world_rendezvous 0)"
    "ready (chans world_rendezvous 0)"
    by (simp_all add: world_rendezvous_def world0_def session0_def open_chan_def ready_def
          queued_def)
  have "SendMessage (42, None) ByReceive ''nodeX'' [] None ''run'' (Close world_closed) =
      Panics world_closed"
    using SendMessage_has_no_closed_session_check
      [of "(42, None)" ByReceive "''nodeX''" "[]" None "''run''" world_closed] c
    by simp
  moreover have "SendMessage (42, None) Never ''nodeX'' [] None ''run'' (Close world_full) =
      Hangs world_full"
    using SendMessage_has_no_closed_session_check
      [of "(42, None)" Never "''nodeX''" "[]" None "''run''" world_full] f
    by simp
  moreover have "result (SendMessage (42, None) Never ''nodeX'' [] None ''run''
      (Close world_rendezvous)) = Some (Some 42, None)"
    using SendMessage_has_no_closed_session_check
      [of "(42, None)" Never "''nodeX''" "[]" None "''run''" world_rendezvous] r
    by simp
  moreover have "result (SendMessage (0, Some (Error ''EOF'')) Never ''nodeX'' [] None ''run''
      world0) = Some (None, Some (Error ''EOF''))"
    by (simp add: SendMessage_def)
  ultimately show ?thesis by simp
qed

text \<open>
  The wording with \<^verbatim>\<open>SessionClosed\<close> fails on a session that \<^verbatim>\<open>Close\<close> was called on: with room
  on the channel the call succeeds with a nil error; with the channel full and its reader
  gone the caller blocks at the send for ever; with the channel closed the call panics.
  In no case does it return an error.
\<close>

theorem SendMessage_after_Close_counterexample:
  "result (SendMessage (42, None) Never ''nodeX'' [] None ''run'' (Close world0)) =
     Some (Some 42, None) \<and>
   SendMessage (42, None) Never ''nodeX'' [] None ''run'' (Close world_full) = Hangs world_full \<and>
   SendMessage (42, None) Never ''nodeX'' [] None ''run'' (Close world_closed) =
     Panics world_closed"
  by (simp add: SendMessage_def Close_def chan_send_def queued_def world_full_def full_chan_def
        world_closed_def world0_def session0_def open_chan_def fun_eq_iff)

text \<open>
  C4. For every call to \<^verbatim>\<open>SendMessage\<close> in which \<^verbatim>\<open>uuid.NewRandom\<close> returns an error, whatever the
  state of the channel, the call returns that error with a nil identifier; no message is
  enqueued (every channel is as before) and the session is as before. The one thing the
  call does is write a line to the log.
\<close>

theorem SendMessage_identifier_failure:
  assumes "snd newRandom = Some e"
  shows "result (SendMessage newRandom wake recipient route payload directive w) =
           Some (None, Some e) \<and>
         chans (final (SendMessage newRandom wake recipient route payload directive w)) = chans w \<and>
         self (final (SendMessage newRandom wake recipient route payload directive w)) = self w \<and>
         logged (final (SendMessage newRandom wake recipient route payload directive w)) =
           logged w @ [''Unable to generate UUID for routing the job...cannot proceed'']"
  by (simp add: SendMessage_failed_id [OF assms] log_line_def)

theorem SendMessage_identifier_failure_witness:
  "snd (0 :: UUID, Some (Error ''EOF'')) = Some (Error ''EOF'') \<and>
   result (SendMessage (0, Some (Error ''EOF'')) ByReceive ''nodeX'' [] (Some ''job'') ''run''
     world0) = Some (None, Some (Error ''EOF'')) \<and>
   sent (chans (final (SendMessage (0, Some (Error ''EOF'')) ByReceive ''nodeX'' []
     (Some ''job'') ''run'' world0)) 0) = []"
proof -
  have a: "snd (0 :: UUID, Some (Error ''EOF'')) = Some (Error ''EOF'')" by simp
  show ?thesis
    using SendMessage_identifier_failure
      [OF a, of ByReceive "''nodeX''" "[]" "Some ''job''" "''run''" world0]
    by (simp add: world0_def open_chan_def)
qed

text \<open>
  C10 (amended). \<^verbatim>\<open>SendMessage\<close> validates none of its arguments. Whether the call returns,
  and with which identifier and error, is the same for every recipient, route, payload
  and directive, in every state; and a call that does not return leaves the same state
  whatever they are. For every recipient, the empty string included, and every
  directive, a call in which identifier generation succeeds and the send on the outbound
  channel completes (the channel is not nil and not closed, and it takes the value at
  once or a receive releases the waiting caller) returns the identifier with a nil error,
  and the message it put on the channel carries the four arguments as they were given.
\<close>

theorem SendMessage_validates_nothing:
  "result (SendMessage newRandom wake recipient route payload directive w) =
     result (SendMessage newRandom wake recipient' route' payload' directive' w) \<and>
   (result (SendMessage newRandom wake recipient route payload directive w) = None \<longrightarrow>
      final (SendMessage newRandom wake recipient route payload directive w) =
        final (SendMessage newRandom wake recipient' route' payload' directive' w)) \<and>
   (\<forall>a. snd newRandom = None \<and> SendChannel (self w) = Some a \<and> \<not> closed (chans w a) \<and>
        (ready (chans w a) \<or> wake = ByReceive) \<longrightarrow>
          result (SendMessage newRandom wake recipient route payload directive w) =
            Some (Some (fst newRandom), None) \<and>
          sent (chans (final (SendMessage newRandom wake recipient route payload directive w)) a) =
            sent (chans w a) @
              [\<lparr>MessageID = fst newRandom, Recipient = recipient, RouteList = route,
                Payload = payload, Directive = directive\<rparr>])"
proof -
  have free: "result (SendMessage newRandom wake recipient route payload directive w) =
      result (SendMessage newRandom wake recipient' route' payload' directive' w) \<and>
    (result (SendMessage newRandom wake recipient route payload directive w) = None \<longrightarrow>
      final (SendMessage newRandom wake recipient route payload directive w) =
        final (SendMessage newRandom wake recipient' route' payload' directive' w))"
    by (cases newRandom; cases wake)
       (auto simp: SendMessage_def chan_send_def split: option.splits)
  have verbatim: "result (SendMessage newRandom wake recipient route payload directive w) =
        Some (Some (fst newRandom), None) \<and>
      sent (chans (final (SendMessage newRandom wake recipient route payload directive w)) a) =
        sent (chans w a) @
          [\<lparr>MessageID = fst newRandom, Recipient = recipient, RouteList = route,
            Payload = payload, Directive = directive\<rparr>]"
    if "snd newRandom = None" "SendChannel (self w) = Some a" "\<not> closed (chans w a)"
       "ready (chans w a) \<or> wake = ByReceive" for a
  proof -
    from chan_send_completes [OF that(3,4)]
    obtain c' where "chan_send wake \<lparr>MessageID = fst newRandom, Recipient = recipient,
        RouteList = route, Payload = payload, Directive = directive\<rparr> (chans w a) = Sent c'"
      and "sent c' = sent (chans w a) @ [\<lparr>MessageID = fst newRandom, Recipient = recipient,
        RouteList = route, Payload = payload, Directive = directive\<rparr>]"
      by blast
    then show ?thesis
      using that(2) by (simp add: SendMessage_generated [OF that(1)])
  qed
  show ?thesis
    using free verbatim by blast
qed

theorem SendMessage_validates_nothing_witness:
  "snd (42 :: UUID, None :: error option) = None \<and>
   SendChannel (self world_unbuffered) = Some 0 \<and> \<not> closed (chans world_unbuffered 0) \<and>
   result (SendMessage (42, None) ByReceive [] [] None [] world_unbuffered) =
     Some (Some 42, None) \<and>
   sent (chans (final (SendMessage (42, None) ByReceive [] [] None [] world_unbuffered)) 0) =
     [\<lparr>MessageID = 42, Recipient = [], RouteList = [], Payload = None, Directive = []\<rparr>] \<and>
   result (SendMessage (42, None) Never [] [] None [] world_unbuffered) = None \<and>
   result (SendMessage (42, None) Never ''nodeX'' [''hop''] (Some ''job'') ''run''
     world_unbuffered) = None \<and>
   final (SendMessage (42, None) Never ''nodeX'' [''hop''] (Some ''job'') ''run''
     world_unbuffered) = world_unbuffered"
proof -
  have h: "snd (42 :: UUID, None :: error option) = None"
    "SendChannel (self world_unbuffered) = Some 0" "\<not> closed (chans world_unbuffered 0)"
    by (simp_all add: world_unbuffered_def world0_def session0_def open_chan_def)
  have n: "SendMessage (42, None) Never [] [] None [] world_unbuffered = Hangs world_unbuffered"
    by (simp add: SendMessage_def chan_send_def queued_def world_unbuffered_def world0_def
          session0_def open_chan_def)
  have 1: "result (SendMessage (42, None) ByReceive [] [] None [] world_unbuffered) =
      Some (Some 42, None)"
    "sent (chans (final (SendMessage (42, None) ByReceive [] [] None [] world_unbuffered)) 0) =
      [\<lparr>MessageID = 42, Recipient = [], RouteList = [], Payload = None, Directive = []\<rparr>]"
    using h SendMessage_validates_nothing
      [of "(42, None)" ByReceive "[]" "[]" None "[]" world_unbuffered]
    by (simp_all add: world_unbuffered_def world0_def open_chan_def)
  have 2: "result (SendMessage (42, None) Never ''nodeX'' [''hop''] (Some ''job'') ''run''
        world_unbuffered) = None"
    "final (SendMessage (42, None) Never ''nodeX'' [''hop''] (Some ''job'') ''run''
        world_unbuffered) = world_unbuffered"
    using n SendMessage_validates_nothing
      [of "(42, None)" Never "[]" "[]" None "[]" world_unbuffered
          "''nodeX''" "[''hop'']" "Some ''job''" "''run''"]
    by simp_all
  show ?thesis
    using h n 1 2 by simp
qed

text \<open>
  Without the condition that the send completes the statement fails, for the empty
  recipient as for any other: on a closed channel the call panics instead of succeeding.
\<close>

theorem SendMessage_empty_recipient_counterexample:
  "snd (42 :: UUID, None :: error option) = None \<and>
   SendMessage (42, None) ByReceive [] [] None ''run'' world_closed = Panics world_closed \<and>
   result (SendMessage (42, None) ByReceive [] [] None ''run'' world_closed) = None"
  by (simp add: SendMessage_def chan_send_def world_closed_def world0_def session0_def
        open_chan_def fun_eq_iff)

subsection \<open>The other methods\<close>

text \<open>
  C3 (amended). \<^verbatim>\<open>UpdateRoutingTable(edges, seen)\<close> returns a nil error for every input. It
  stores nothing: the session has no field for a topology snapshot (the two are commented
  out in the struct), so the session and the channels are as before, and the two values
  only go to the log.
\<close>

theorem UpdateRoutingTable_only_logs:
  "fst (UpdateRoutingTable edges seen w) = None \<and>
   self (snd (UpdateRoutingTable edges seen w)) = self w \<and>
   chans (snd (UpdateRoutingTable edges seen w)) = chans w \<and>
   logged (snd (UpdateRoutingTable edges seen w)) =
     logged w @ [''edges: '' @ edges, ''seen: '' @ seen]"
  by (simp add: UpdateRoutingTable_def log_line_def)

text \<open>
  Two calls with different topologies leave the very same session, the one before the
  call: no snapshot was replaced.
\<close>

theorem UpdateRoutingTable_stores_nothing_counterexample:
  "self (snd (UpdateRoutingTable ''nodeA nodeB'' ''nodeC'' world0)) = session0 \<and>
   self (snd (UpdateRoutingTable ''nodeD'' ''nodeE nodeF'' world0)) = session0 \<and>
   snd (UpdateRoutingTable ''nodeA nodeB'' ''nodeC'' world0) =
     world0\<lparr>logged := [''edges: nodeA nodeB'', ''seen: nodeC'']\<rparr>"
  by (simp add: UpdateRoutingTable_def log_line_def world0_def)

text \<open>
  C8. \<^verbatim>\<open>RegisterConnection(peerNodeID, metadata)\<close> returns a nil error for every input and
  every session; afterwards the session is the one before with its peer identity set to
  \<open>peerNodeID\<close> and its metadata replaced by the supplied value, whatever it was before.
\<close>

theorem RegisterConnection_records_peer_and_metadata:
  "fst (RegisterConnection peerNodeID metadata w) = None \<and>
   self (snd (RegisterConnection peerNodeID metadata w)) =
     (self w)\<lparr>PeerNodeID := peerNodeID, Metadata := metadata\<rparr> \<and>
   PeerNodeID (self (snd (RegisterConnection peerNodeID metadata w))) = peerNodeID \<and>
   Metadata (self (snd (RegisterConnection peerNodeID metadata w))) = metadata"
  by (simp add: RegisterConnection_def log_line_def)

text \<open>
  C9. Whatever operation of a session runs (\<^verbatim>\<open>RegisterConnection\<close>, \<^verbatim>\<open>UpdateRoutingTable\<close>,
  \<^verbatim>\<open>SendMessage\<close>, \<^verbatim>\<open>Close\<close>, \<^verbatim>\<open>DisconnectReceptorNetwork\<close>), with whatever arguments and however
  it ends, the session afterwards has the account, the node identity and the three
  channel references it had before.
\<close>

theorem session_identity_is_fixed:
  "identity (self (perform op w)) = identity (self w)"
proof (cases op)
  case (OpSendMessage newRandom wake recipient route payload directive)
  then show ?thesis
    by (cases newRandom)
       (auto simp: SendMessage_def log_line_def split: option.splits send_result.splits)
qed (simp_all add: RegisterConnection_def UpdateRoutingTable_def Close_def
       DisconnectReceptorNetwork_def log_line_def identity_def)

section \<open>Properties of the handlers\<close>

text \<open>
  C5 (amended). For every status request on a connected session whose capability query
  returns an error, the handler answers 200 with status \<^verbatim>\<open>connected\<close> and logs the failure
  at error level. The \<^verbatim>\<open>capabilities\<close> field of the answer is the value the query returned
  together with the error, whatever it is: the key is left out of the JSON exactly when
  that value is nil. When no session is found the answer is 200 with status
  \<^verbatim>\<open>disconnected\<close> and no capabilities.
\<close>

theorem handleConnectionStatus_capability_failure:
  assumes "decodeJSON req = Inr \<lparr>connectionID.Account = account, NodeID = node_id\<rparr>"
  shows "(\<forall>client e.
            GetConnection (connectionMgr (s :: 'v ManagementServer)) account node_id = Some client \<and>
            snd (GetCapabilities client) = Some e \<longrightarrow>
              written (handleConnectionStatus s req) =
                (StatusOK, StatusBody \<lparr>connectionStatusResponse.Status = CONNECTED_STATUS,
                                       Capabilities = fst (GetCapabilities client)\<rparr>) \<and>
              filter is_error_log (effects (handleConnectionStatus s req)) =
                [LogEntry ErrorLevel (logger_fields req @ [(''error'', ErrorString e)])
                   (''Unable to retrieve the capabilities of node '' @ node_id)] \<and>
              status_keys \<lparr>connectionStatusResponse.Status = CONNECTED_STATUS,
                           Capabilities = fst (GetCapabilities client)\<rparr> =
                (if fst (GetCapabilities client) = None then [''status'']
                 else [''status'', ''capabilities''])) \<and>
         (GetConnection (connectionMgr s) account node_id = None \<longrightarrow>
            written (handleConnectionStatus s req) =
              (StatusOK, StatusBody \<lparr>connectionStatusResponse.Status = DISCONNECTED_STATUS,
                                     Capabilities = None\<rparr>) \<and>
            status_keys \<lparr>connectionStatusResponse.Status = DISCONNECTED_STATUS,
                         Capabilities = (None :: 'v option)\<rparr> = [''status''])"
  using assms
  by (auto simp: handleConnectionStatus_def status_keys_def Let_def
           split: option.splits prod.splits)

theorem handleConnectionStatus_capability_failure_witness:
  "decodeJSON (request_for ''nodeY'') = Inr \<lparr>connectionID.Account = ''acct1'', NodeID = ''nodeY''\<rparr> \<and>
   GetConnection (connectionMgr server0) ''acct1'' ''nodeY'' = Some client_failing \<and>
   snd (GetCapabilities client_failing) = Some (Error ''timeout'') \<and>
   written (handleConnectionStatus server0 (request_for ''nodeY'')) =
     (200, StatusBody \<lparr>connectionStatusResponse.Status = ''connected'', Capabilities = None\<rparr>) \<and>
   GetConnection (connectionMgr server0) ''acct1'' ''nodeQ'' = None \<and>
   written (handleConnectionStatus server0 (request_for ''nodeQ'')) =
     (200, StatusBody \<lparr>connectionStatusResponse.Status = ''disconnected'', Capabilities = None\<rparr>)"
proof -
  have d: "decodeJSON (request_for n) = Inr \<lparr>connectionID.Account = ''acct1'', NodeID = n\<rparr>" for n
    by (simp add: request_for_def)
  have y: "GetConnection (connectionMgr server0) ''acct1'' ''nodeY'' = Some client_failing"
    and q: "GetConnection (connectionMgr server0) ''acct1'' ''nodeQ'' = None"
    by (simp_all add: GetConnection_def server0_def)
  have e: "snd (GetCapabilities client_failing) = Some (Error ''timeout'')"
    and c: "fst (GetCapabilities client_failing) = None"
    by (simp_all add: client_failing_def)
  have "written (handleConnectionStatus server0 (request_for ''nodeY'')) =
     (200, StatusBody \<lparr>connectionStatusResponse.Status = ''connected'', Capabilities = None\<rparr>)"
    using handleConnectionStatus_capability_failure [OF d, of server0 "''nodeY''"] y e c
    by (simp add: StatusOK_def CONNECTED_STATUS_def)
  moreover have "written (handleConnectionStatus server0 (request_for ''nodeQ'')) =
     (200, StatusBody \<lparr>connectionStatusResponse.Status = ''disconnected'', Capabilities = None\<rparr>)"
    using handleConnectionStatus_capability_failure [OF d, of server0 "''nodeQ''"] q
    by (simp add: StatusOK_def DISCONNECTED_STATUS_def)
  ultimately show ?thesis using d y q e by simp
qed

text \<open>
  The wording "capabilities are omitted" fails for a client whose failing query also
  returns a value: the handler copies the value into the answer, and the key is written.
\<close>

theorem handleConnectionStatus_stale_capabilities_counterexample:
  "GetConnection (connectionMgr server0) ''acct1'' ''nodeZ'' = Some client_stale \<and>
   GetCapabilities client_stale = (Some ''stale'', Some (Error ''timeout'')) \<and>
   written (handleConnectionStatus server0 (request_for ''nodeZ'')) =
     (200, StatusBody \<lparr>connectionStatusResponse.Status = ''connected'',
                        Capabilities = Some ''stale''\<rparr>) \<and>
   status_keys \<lparr>connectionStatusResponse.Status = ''connected'', Capabilities = Some ''stale''\<rparr> =
     [''status'', ''capabilities'']"
  by (simp add: handleConnectionStatus_def GetConnection_def server0_def request_for_def
        client_stale_def status_keys_def StatusOK_def CONNECTED_STATUS_def Let_def)

text \<open>
  C6. For every ping request that decodes: when no session is found the answer is 200 with
  status \<^verbatim>\<open>disconnected\<close> and a nil payload, and no method of any client is called; when a
  session is found the handler makes exactly one call, \<^verbatim>\<open>Ping\<close> with the account, the node
  and the route list holding that one node; an error from it is answered with the error
  response "Ping failed" (400), which is not the \<^verbatim>\<open>disconnected\<close> answer, and a nil error
  with 200, status \<^verbatim>\<open>connected\<close> and the payload \<^verbatim>\<open>Ping\<close> returned.
\<close>

theorem handleConnectionPing_reports:
  assumes "decodeJSON req = Inr \<lparr>connectionID.Account = account, NodeID = node_id\<rparr>"
  shows "(GetConnection (connectionMgr s) account node_id = None \<longrightarrow>
            written (handleConnectionPing s req) =
              (StatusOK, PingBody \<lparr>connectionPingResponse.Status = DISCONNECTED_STATUS,
                                   Payload = None\<rparr>) \<and>
            calls (handleConnectionPing s req) = []) \<and>
         (\<forall>client. GetConnection (connectionMgr s) account node_id = Some client \<longrightarrow>
            calls (handleConnectionPing s req) =
              [CallPing (account, node_id) account node_id [node_id]] \<and>
            (\<forall>e. snd (Ping client account node_id [node_id]) = Some e \<longrightarrow>
               written (handleConnectionPing s req) =
                 (StatusBadRequest,
                  ErrorBody \<lparr>Title = ''Ping failed'', Status = StatusBadRequest,
                             Detail = ErrorString e\<rparr>) \<and>
               written (handleConnectionPing s req) \<noteq>
                 (StatusOK, PingBody \<lparr>connectionPingResponse.Status = DISCONNECTED_STATUS,
                                      Payload = None\<rparr>)) \<and>
            (snd (Ping client account node_id [node_id]) = None \<longrightarrow>
               written (handleConnectionPing s req) =
                 (StatusOK, PingBody \<lparr>connectionPingResponse.Status = CONNECTED_STATUS,
                                      Payload = fst (Ping client account node_id [node_id])\<rparr>)))"
  using assms
  by (auto simp: handleConnectionPing_def calls_def Let_def split: option.splits prod.splits)

theorem handleConnectionPing_reports_witness:
  "decodeJSON (request_for ''nodeY'') = Inr \<lparr>connectionID.Account = ''acct1'', NodeID = ''nodeY''\<rparr> \<and>
   GetConnection (connectionMgr server0) ''acct1'' ''nodeY'' = Some client_failing \<and>
   snd (Ping client_failing ''acct1'' ''nodeY'' [''nodeY'']) = Some (Error ''timeout'') \<and>
   written (handleConnectionPing server0 (request_for ''nodeY'')) =
     (400, ErrorBody \<lparr>Title = ''Ping failed'', Status = 400, Detail = ''timeout''\<rparr>) \<and>
   calls (handleConnectionPing server0 (request_for ''nodeY'')) =
     [CallPing (''acct1'', ''nodeY'') ''acct1'' ''nodeY'' [''nodeY'']] \<and>
   GetConnection (connectionMgr server0) ''acct1'' ''nodeX'' = Some client_ok \<and>
   snd (Ping client_ok ''acct1'' ''nodeX'' [''nodeX'']) = None \<and>
   written (handleConnectionPing server0 (request_for ''nodeX'')) =
     (200, PingBody \<lparr>connectionPingResponse.Status = ''connected'', Payload = Some ''pong''\<rparr>) \<and>
   GetConnection (connectionMgr server0) ''acct1'' ''nodeQ'' = None \<and>
   written (handleConnectionPing server0 (request_for ''nodeQ'')) =
     (200, PingBody \<lparr>connectionPingResponse.Status = ''disconnected'', Payload = None\<rparr>)"
proof -
  have d: "decodeJSON (request_for n) = Inr \<lparr>connectionID.Account = ''acct1'', NodeID = n\<rparr>" for n
    by (simp add: request_for_def)
  have x: "GetConnection (connectionMgr server0) ''acct1'' ''nodeX'' = Some client_ok"
    and y: "GetConnection (connectionMgr server0) ''acct1'' ''nodeY'' = Some client_failing"
    and q: "GetConnection (connectionMgr server0) ''acct1'' ''nodeQ'' = None"
    by (simp_all add: GetConnection_def server0_def)
  have py: "Ping client_failing ''acct1'' ''nodeY'' [''nodeY''] = (None, Some (Error ''timeout''))"
    and px: "Ping client_ok ''acct1'' ''nodeX'' [''nodeX''] = (Some ''pong'', None)"
    by (simp_all add: client_failing_def client_ok_def)
  have "written (handleConnectionPing server0 (request_for ''nodeY'')) =
      (400, ErrorBody \<lparr>Title = ''Ping failed'', Status = 400, Detail = ''timeout''\<rparr>)"
    and "calls (handleConnectionPing server0 (request_for ''nodeY'')) =
      [CallPing (''acct1'', ''nodeY'') ''acct1'' ''nodeY'' [''nodeY'']]"
    using handleConnectionPing_reports [OF d, of server0 "''nodeY''"] y py
    by (simp_all add: StatusBadRequest_def)
  moreover have "written (handleConnectionPing server0 (request_for ''nodeX'')) =
      (200, PingBody \<lparr>connectionPingResponse.Status = ''connected'', Payload = Some ''pong''\<rparr>)"
    using handleConnectionPing_reports [OF d, of server0 "''nodeX''"] x px
    by (simp add: StatusOK_def CONNECTED_STATUS_def)
  moreover have "written (handleConnectionPing server0 (request_for ''nodeQ'')) =
      (200, PingBody \<lparr>connectionPingResponse.Status = ''disconnected'', Payload = None\<rparr>)"
    using handleConnectionPing_reports [OF d, of server0 "''nodeQ''"] q
    by (simp add: StatusOK_def DISCONNECTED_STATUS_def)
  ultimately show ?thesis using d x y q px py by simp
qed

text \<open>
  C7. The disconnect handler leaves the server, and with it the registry, as it found it,
  for every request. For a request that decodes: when no session is found it answers with
  the error response "No connection found for node (account:node)" (400) and calls no
  client; when a session is found it makes exactly one call, \<^verbatim>\<open>Close\<close> on that client, and
  answers 200 with the empty object.
\<close>

theorem handleDisconnect_closes_and_keeps_registry:
  "server (handleDisconnect s req) = s \<and>
   (\<forall>account node_id.
      decodeJSON req = Inr \<lparr>connectionID.Account = account, NodeID = node_id\<rparr> \<longrightarrow>
        (GetConnection (connectionMgr s) account node_id = None \<longrightarrow>
           written (handleDisconnect s req) =
             (StatusBadRequest,
              ErrorBody
                \<lparr>Title = ''No connection found for node ('' @ account @ '':'' @ node_id @ '')'',
                 Status = StatusBadRequest,
                 Detail = ''No connection found for node ('' @ account @ '':'' @ node_id @ '')''\<rparr>) \<and>
           calls (handleDisconnect s req) = []) \<and>
        (\<forall>client. GetConnection (connectionMgr s) account node_id = Some client \<longrightarrow>
           calls (handleDisconnect s req) = [CallClose (account, node_id)] \<and>
           written (handleDisconnect s req) = (StatusOK, EmptyObject)))"
  by (auto simp: handleDisconnect_def bad_json_def calls_def Let_def
           split: option.splits sum.splits)

theorem handleDisconnect_closes_and_keeps_registry_witness:
  "decodeJSON (request_for ''nodeX'') = Inr \<lparr>connectionID.Account = ''acct1'', NodeID = ''nodeX''\<rparr> \<and>
   GetConnection (connectionMgr server0) ''acct1'' ''nodeX'' = Some client_ok \<and>
   calls (handleDisconnect server0 (request_for ''nodeX'')) = [CallClose (''acct1'', ''nodeX'')] \<and>
   written (handleDisconnect server0 (request_for ''nodeX'')) = (200, EmptyObject) \<and>
   GetConnection (connectionMgr (server (handleDisconnect server0 (request_for ''nodeX''))))
     ''acct1'' ''nodeX'' = Some client_ok \<and>
   GetConnection (connectionMgr server0) ''acct1'' ''nodeQ'' = None \<and>
   written (handleDisconnect server0 (request_for ''nodeQ'')) =
     (400, ErrorBody \<lparr>Title = ''No connection found for node (acct1:nodeQ)'', Status = 400,
                      Detail = ''No connection found for node (acct1:nodeQ)''\<rparr>)"
proof -
  have d: "decodeJSON (request_for n) = Inr \<lparr>connectionID.Account = ''acct1'', NodeID = n\<rparr>" for n
    by (simp add: request_for_def)
  have x: "GetConnection (connectionMgr server0) ''acct1'' ''nodeX'' = Some client_ok"
    and q: "GetConnection (connectionMgr server0) ''acct1'' ''nodeQ'' = None"
    by (simp_all add: GetConnection_def server0_def)
  have "calls (handleDisconnect server0 (request_for ''nodeX'')) = [CallClose (''acct1'', ''nodeX'')]"
    and "written (handleDisconnect server0 (request_for ''nodeX'')) = (200, EmptyObject)"
    and "server (handleDisconnect server0 (request_for ''nodeX'')) = server0"
    using handleDisconnect_closes_and_keeps_registry [of server0 "request_for ''nodeX''"] d x
    by (simp_all add: StatusOK_def)
  moreover have "written (handleDisconnect server0 (request_for ''nodeQ'')) =
     (400, ErrorBody \<lparr>Title = ''No connection found for node (acct1:nodeQ)'', Status = 400,
                      Detail = ''No connection found for node (acct1:nodeQ)''\<rparr>)"
    using handleDisconnect_closes_and_keeps_registry [of server0 "request_for ''nodeQ''"] d q
    by (simp add: StatusBadRequest_def)
  ultimately show ?thesis using d x q by simp
qed

end

